theory Spec2Isabelle
  imports Complex_Main "HOL-Library.Log_Nat"
begin

section \<open>Data model\<close>

text \<open>
  The script \<^verbatim>\<open>tut.py\<close> shifts one image onto the pixel grid of another with numpy
  arrays. The images hold floating-point samples. A sample is a finite number, an infinity
  or NaN. Both zeros of IEEE arithmetic are the one value \<open>Num 0\<close>: the script only ever
  compares a sample with zero, and \<^verbatim>\<open>-0.0 == 0\<close> holds as \<^verbatim>\<open>0.0 == 0\<close> does.
\<close>

datatype sample = Num real | PosInf | NegInf | NaN

text \<open>The exceptions numpy raises in the operations the script uses.\<close>

datatype error = ValueError | IndexError

text \<open>
  A two-dimensional numpy array in C order: \<^verbatim>\<open>a.shape[0]\<close> rows, \<^verbatim>\<open>a.shape[1]\<close>
  columns, and the buffer of elements row after row.
\<close>

record 'a ndarray =
  shape0 :: nat
  shape1 :: nat
  flat :: "'a list"

text \<open>
  An image is an array of samples together with its dtype, single or double precision.
  An array made from it (\<^verbatim>\<open>np.zeros_like\<close>) has the same dtype, and what is stored into
  such an array is converted to that dtype.
\<close>

datatype dtype = Float32 | Float64

record image = "sample ndarray" +
  dtype :: dtype

definition has_shape :: "('a, 'z) ndarray_scheme \<Rightarrow> nat \<Rightarrow> nat \<Rightarrow> bool" where
  "has_shape a h w = (shape0 a = h \<and> shape1 a = w \<and> length (flat a) = h * w)"

text \<open>\<^verbatim>\<open>a[r, c]\<close> for a row \<open>r\<close> and a column \<open>c\<close> inside the array.\<close>

definition item :: "('a, 'z) ndarray_scheme \<Rightarrow> nat \<Rightarrow> nat \<Rightarrow> 'a" where
  "item a r c = flat a ! (r * shape1 a + c)"

text \<open>
  An astrometric transform (\<^verbatim>\<open>wcs.WCS\<close>) belongs to astropy, not to the script: it is a
  parameter, a pair of functions on one point each, with the pixel origin 0 the script
  passes already applied.
\<close>

record wcs =
  pix2world :: "sample \<times> sample \<Rightarrow> sample \<times> sample"
  world2pix :: "sample \<times> sample \<Rightarrow> sample \<times> sample"

text \<open>The variables of the script that the reprojection computes.\<close>

record state =
  xarray :: "int ndarray"
  yarray :: "int ndarray"
  ra_array :: "sample ndarray"
  dec_array :: "sample ndarray"
  newxarray :: "int ndarray"
  newyarray :: "int ndarray"
  boolean_array :: "bool ndarray"
  newdata :: image

section \<open>Rounding and conversion to integers\<close>

text \<open>\<^verbatim>\<open>np.rint\<close>: the nearest integer, a tie going to the even one; NaN and the infinities stay.\<close>

definition rint_real :: "real \<Rightarrow> int" where
  "rint_real r =
     (let f = \<lfloor>r\<rfloor>; d = r - of_int f
      in if d < 1 / 2 then f else if 1 / 2 < d then f + 1 else if even f then f else f + 1)"

fun rint :: "sample \<Rightarrow> sample" where
  "rint (Num r) = Num (of_int (rint_real r))"
| "rint v = v"

text \<open>
  \<^verbatim>\<open>np.array(a, dtype='int')\<close> on floating-point elements: a finite value inside the
  range of a 64-bit integer loses its fraction. For NaN, an infinity or a value outside the
  range the conversion is left to the machine, whose answer is the parameter \<open>cast_ub\<close>.
\<close>

definition to_int :: "(sample \<Rightarrow> int) \<Rightarrow> sample \<Rightarrow> int" where
  "to_int cast_ub v =
     (case v of
        Num r \<Rightarrow>
          if - (2 ^ 63) \<le> r \<and> r < 2 ^ 63 then (if 0 \<le> r then \<lfloor>r\<rfloor> else \<lceil>r\<rceil>)
          else cast_ub v
      | _ \<Rightarrow> cast_ub v)"

section \<open>Conversion between the floating-point types\<close>

text \<open>
  The exponent of a positive number: the \<open>e\<close> with \<open>2 ^ e \<le> a < 2 ^ (e + 1)\<close>, and the
  power of two for an exponent of either sign.
\<close>

definition ilog2 :: "real \<Rightarrow> int" where
  "ilog2 a = (if 1 \<le> a then bitlen \<lfloor>a\<rfloor> - 1 else - bitlen (\<lceil>1 / a\<rceil> - 1))"

definition pow2 :: "int \<Rightarrow> real" where
  "pow2 k = (if 0 \<le> k then 2 ^ nat k else 1 / 2 ^ nat (- k))"

text \<open>
  A finite number stored in single precision: the nearest number with 24 significant bits
  and an exponent of at least -126 (so the step is never below \<open>2 ^ -149\<close>), a tie going
  to the even one; a result that reaches \<open>2 ^ 128\<close> is an infinity, and a number below half
  of the smallest step is zero.
\<close>

definition round_float32 :: "real \<Rightarrow> sample" where
  "round_float32 r =
     (if r = 0 then Num 0
      else let a = \<bar>r\<bar>;
               q = pow2 (max (ilog2 a) (- 126) - 23);
               m = of_int (rint_real (a / q)) * q
           in if 2 ^ 128 \<le> m then (if 0 < r then PosInf else NegInf)
              else Num (if 0 < r then m else - m))"

text \<open>
  A sample converted to a dtype, as an assignment into an array of that dtype does. The
  samples come from single or double precision, so double precision takes each as it is;
  single precision rounds the finite ones.
\<close>

fun astype :: "dtype \<Rightarrow> sample \<Rightarrow> sample" where
  "astype Float64 v = v"
| "astype Float32 (Num r) = round_float32 r"
| "astype Float32 v = v"

section \<open>The numpy operations of the script\<close>

text \<open>An exception ends the script: the steps after it do not run.\<close>

definition and_then :: "error + 'a \<Rightarrow> ('a \<Rightarrow> error + 'b) \<Rightarrow> error + 'b" where
  "and_then m f = (case m of Inl e \<Rightarrow> Inl e | Inr x \<Rightarrow> f x)"

text \<open>\<^verbatim>\<open>np.arange(n)\<close>: the integers from 0 up to \<open>n - 1\<close>, none when \<open>n \<le> 0\<close>.\<close>

definition arange :: "int \<Rightarrow> int list" where
  "arange n = map int [0..<nat n]"

text \<open>
  \<^verbatim>\<open>np.meshgrid(x, y)\<close> on one-dimensional \<open>x\<close> and \<open>y\<close>: two arrays of
  \<open>len(y)\<close> rows and \<open>len(x)\<close> columns; every row of the first is \<open>x\<close>, every column
  of the second is \<open>y\<close>.
\<close>

definition meshgrid :: "'a list \<Rightarrow> 'a list \<Rightarrow> 'a ndarray \<times> 'a ndarray" where
  "meshgrid xs ys =
     (\<lparr>shape0 = length ys, shape1 = length xs, flat = concat (map (\<lambda>y. xs) ys)\<rparr>,
      \<lparr>shape0 = length ys, shape1 = length xs,
       flat = concat (map (\<lambda>y. map (\<lambda>x. y) xs) ys)\<rparr>)"

text \<open>An operation applied to every element (a comparison with a scalar, \<^verbatim>\<open>np.rint\<close>, ...).\<close>

definition amap :: "('a \<Rightarrow> 'b) \<Rightarrow> ('a, 'z) ndarray_scheme \<Rightarrow> 'b ndarray" where
  "amap f a = \<lparr>shape0 = shape0 a, shape1 = shape1 a, flat = map f (flat a)\<rparr>"

text \<open>
  An operation on two arrays, element by element. Arrays of different shapes raise
  ValueError; numpy would stretch an axis of length 1 first, which no array of the script
  needs, all of them having the shape of the first image.
\<close>

definition elementwise2 ::
  "('a \<Rightarrow> 'b \<Rightarrow> 'c) \<Rightarrow> 'a ndarray \<Rightarrow> 'b ndarray \<Rightarrow> error + 'c ndarray" where
  "elementwise2 f a b =
     (if shape0 a = shape0 b \<and> shape1 a = shape1 b
      then Inr \<lparr>shape0 = shape0 a, shape1 = shape1 a, flat = map2 f (flat a) (flat b)\<rparr>
      else Inl ValueError)"

definition logical_or :: "bool ndarray \<Rightarrow> bool ndarray \<Rightarrow> error + bool ndarray" where
  "logical_or a b = elementwise2 (\<lambda>p q. p \<or> q) a b"

definition logical_not :: "bool ndarray \<Rightarrow> bool ndarray" where
  "logical_not a = amap (\<lambda>p. \<not> p) a"

text \<open>\<^verbatim>\<open>np.zeros_like(a)\<close>: zeros in the shape and the dtype of \<open>a\<close>.\<close>

definition zeros_like :: "image \<Rightarrow> image" where
  "zeros_like a =
     \<lparr>shape0 = shape0 a, shape1 = shape1 a, flat = replicate (shape0 a * shape1 a) (Num 0),
      dtype = dtype a\<rparr>"

text \<open>\<^verbatim>\<open>v == 0\<close> and \<^verbatim>\<open>np.isnan(v)\<close> on one sample: NaN equals nothing.\<close>

fun eq_zero :: "sample \<Rightarrow> bool" where
  "eq_zero (Num r) = (r = 0)"
| "eq_zero _ = False"

fun isnan :: "sample \<Rightarrow> bool" where
  "isnan NaN = True"
| "isnan _ = False"

text \<open>
  \<^verbatim>\<open>a[mask]\<close> with a boolean array: the elements of \<open>a\<close> where the mask is true, in
  row order, as a one-dimensional array. A mask of another shape raises IndexError.
\<close>

definition compress :: "bool list \<Rightarrow> 'a list \<Rightarrow> 'a list" where
  "compress ms xs = map snd (filter fst (zip ms xs))"

definition getitem_mask :: "('a, 'z) ndarray_scheme \<Rightarrow> bool ndarray \<Rightarrow> error + 'a list" where
  "getitem_mask a bmask =
     (if shape0 bmask = shape0 a \<and> shape1 bmask = shape1 a
      then Inr (compress (flat bmask) (flat a))
      else Inl IndexError)"

text \<open>
  \<^verbatim>\<open>a[y, x]\<close> with two integers: a negative index counts from the end of its axis, and
  an index outside the axis raises IndexError.
\<close>

definition getitem2 :: "('a, 'z) ndarray_scheme \<Rightarrow> int \<Rightarrow> int \<Rightarrow> error + 'a" where
  "getitem2 a y x =
     (let h = int (shape0 a); w = int (shape1 a);
          y' = (if y < 0 then y + h else y);
          x' = (if x < 0 then x + w else x)
      in if 0 \<le> y' \<and> y' < h \<and> 0 \<le> x' \<and> x' < w
         then Inr (item a (nat y') (nat x'))
         else Inl IndexError)"

text \<open>
  \<^verbatim>\<open>a[ys, xs]\<close> with two one-dimensional integer arrays: the elements
  \<^verbatim>\<open>a[ys[i], xs[i]]\<close>. Index arrays of different lengths raise IndexError (the script's
  two have one length, both cut out by the same mask).
\<close>

fun fancy_index :: "('a, 'z) ndarray_scheme \<Rightarrow> int list \<Rightarrow> int list \<Rightarrow> error + 'a list" where
  "fancy_index a [] [] = Inr []"
| "fancy_index a (y # ys) (x # xs) =
     and_then (getitem2 a y x) (\<lambda>v.
     and_then (fancy_index a ys xs) (\<lambda>vs. Inr (v # vs)))"
| "fancy_index a _ _ = Inl IndexError"

text \<open>
  \<^verbatim>\<open>a[mask] = vals\<close> with a one-dimensional array of values: the positions where the mask
  is true take the values in row order, each converted to the dtype of \<open>a\<close>. A mask of
  another shape raises IndexError, and a number of values other than the number of true
  positions raises ValueError (numpy would repeat a single value; the script always has one
  value for each true position).
\<close>

fun put_mask :: "'a list \<Rightarrow> bool list \<Rightarrow> 'a list \<Rightarrow> 'a list" where
  "put_mask (d # ds) (m # ms) vs =
     (if m then (case vs of [] \<Rightarrow> d # put_mask ds ms [] | v # vs' \<Rightarrow> v # put_mask ds ms vs')
      else d # put_mask ds ms vs)"
| "put_mask ds _ _ = ds"

definition setitem_mask :: "image \<Rightarrow> bool ndarray \<Rightarrow> sample list \<Rightarrow> error + image" where
  "setitem_mask a bmask vals =
     (if \<not> (shape0 bmask = shape0 a \<and> shape1 bmask = shape1 a) then Inl IndexError
      else if length vals \<noteq> length (filter (\<lambda>m. m) (flat bmask)) then Inl ValueError
      else Inr (a\<lparr>flat := put_mask (flat a) (flat bmask) (map (astype (dtype a)) vals)\<rparr>))"

text \<open>
  \<^verbatim>\<open>a[mask] = v\<close> with one value, converted to the dtype of \<open>a\<close>, for every position
  where the mask is true.
\<close>

definition setitem_mask_scalar :: "image \<Rightarrow> bool ndarray \<Rightarrow> sample \<Rightarrow> error + image" where
  "setitem_mask_scalar a bmask v =
     (if shape0 bmask = shape0 a \<and> shape1 bmask = shape1 a
      then Inr (a\<lparr>flat := map2 (\<lambda>d m. if m then astype (dtype a) v else d)
                              (flat a) (flat bmask)\<rparr>)
      else Inl IndexError)"

section \<open>The stages of the script\<close>

text \<open>
  Lines 113-114, the coordinate arrays of an image of \<open>H\<close> rows and \<open>W\<close> columns:
  \<^verbatim>\<open>np.meshgrid(np.arange(W), np.arange(H))\<close>. No step of it raises.
\<close>

definition grid_generator :: "int \<Rightarrow> int \<Rightarrow> error + int ndarray \<times> int ndarray" where
  "grid_generator H W = Inr (meshgrid (arange W) (arange H))"

text \<open>
  \<^verbatim>\<open>w.all_pix2world(xarray, yarray, 0)\<close> and \<^verbatim>\<open>w.all_world2pix(ra, dec, 0)\<close>: the
  transform at every position of two arrays of one shape.
\<close>

definition all_pix2world ::
  "wcs \<Rightarrow> int ndarray \<Rightarrow> int ndarray \<Rightarrow> error + sample ndarray \<times> sample ndarray" where
  "all_pix2world w xa ya =
     and_then (elementwise2 (\<lambda>x y. pix2world w (Num (of_int x), Num (of_int y))) xa ya)
       (\<lambda>ps. Inr (amap fst ps, amap snd ps))"

definition all_world2pix ::
  "wcs \<Rightarrow> sample ndarray \<Rightarrow> sample ndarray \<Rightarrow> error + sample ndarray \<times> sample ndarray" where
  "all_world2pix w ra dec =
     and_then (elementwise2 (\<lambda>a d. world2pix w (a, d)) ra dec)
       (\<lambda>ps. Inr (amap fst ps, amap snd ps))"

text \<open>Lines 274-291: the six tests for a bad pixel, joined by OR and negated.\<close>

definition validity_mask ::
  "('a, 'y) ndarray_scheme \<Rightarrow> ('b, 'z) ndarray_scheme \<Rightarrow> int ndarray \<Rightarrow> int ndarray \<Rightarrow>
     error + bool ndarray" where
  "validity_mask nd im2 newx newy =
     (let bad1 = amap (\<lambda>x. x < 0) newx;
          bad2 = amap (\<lambda>y. y < 0) newy;
          bad3 = amap (\<lambda>x. x > int (shape1 nd) - 1) newx;
          bad4 = amap (\<lambda>y. y > int (shape0 nd) - 1) newy;
          bad5 = amap (\<lambda>x. x > int (shape1 im2) - 1) newx;
          bad6 = amap (\<lambda>y. y > int (shape0 im2) - 1) newy
      in and_then (logical_or bad1 bad2) (\<lambda>b.
         and_then (logical_or b bad3) (\<lambda>b.
         and_then (logical_or b bad4) (\<lambda>b.
         and_then (logical_or b bad5) (\<lambda>b.
         and_then (logical_or b bad6) (\<lambda>b.
         Inr (logical_not b)))))))"

text \<open>
  Lines 302-303: the good pixels take the value of the second image at their new place,
  converted to the dtype of \<open>newdata\<close>, which is that of the first image.
\<close>

definition copy_valid ::
  "image \<Rightarrow> image \<Rightarrow> int ndarray \<Rightarrow> int ndarray \<Rightarrow> bool ndarray \<Rightarrow> error + image" where
  "copy_valid nd im2 newx newy bmask =
     and_then (getitem_mask newy bmask) (\<lambda>ys.
     and_then (getitem_mask newx bmask) (\<lambda>xs.
     and_then (fancy_index im2 ys xs) (\<lambda>vals.
     setitem_mask nd bmask vals)))"

text \<open>Lines 310, 315 and 319: zeros to NaN, NaN back to zero, zeros to NaN again.\<close>

definition zeros_to_nan :: "image \<Rightarrow> error + image" where
  "zeros_to_nan nd = setitem_mask_scalar nd (amap eq_zero nd) NaN"

definition nan_to_zeros :: "image \<Rightarrow> error + image" where
  "nan_to_zeros nd = setitem_mask_scalar nd (amap isnan nd) (Num 0)"

definition sentinel_passes :: "image \<Rightarrow> error + image" where
  "sentinel_passes nd =
     and_then (zeros_to_nan nd) (\<lambda>nd.
     and_then (nan_to_zeros nd) (\<lambda>nd.
     zeros_to_nan nd))"

text \<open>
  Lines 266-319: from the two images and the integer coordinates of every pixel of the
  first image in the second, the mask of good pixels and the shifted data.
\<close>

definition resample ::
  "image \<Rightarrow> image \<Rightarrow> int ndarray \<Rightarrow> int ndarray \<Rightarrow> error + bool ndarray \<times> image" where
  "resample im1 im2 newx newy =
     (let nd = zeros_like im1
      in and_then (validity_mask nd im2 newx newy) (\<lambda>bmask.
         and_then (copy_valid nd im2 newx newy bmask) (\<lambda>nd.
         and_then (sentinel_passes nd) (\<lambda>nd.
         Inr (bmask, nd)))))"

text \<open>
  Lines 113-247: the coordinates of the first image, their place on the sky by the first
  transform, the place of that in the second image by the second transform, rounded and
  converted to integers.
\<close>

definition coordinate_mapper ::
  "(sample \<Rightarrow> int) \<Rightarrow> wcs \<Rightarrow> wcs \<Rightarrow> image \<Rightarrow>
     error + (int ndarray \<times> int ndarray) \<times> (sample ndarray \<times> sample ndarray) \<times>
             (int ndarray \<times> int ndarray)" where
  "coordinate_mapper cast_ub w1 w2 im1 =
     and_then (grid_generator (int (shape0 im1)) (int (shape1 im1))) (\<lambda>(xa, ya).
     and_then (all_pix2world w1 xa ya) (\<lambda>(ra, dec).
     and_then (all_world2pix w2 ra dec) (\<lambda>(fx, fy).
     Inr ((xa, ya), (ra, dec),
          (amap (to_int cast_ub) (amap rint fx), amap (to_int cast_ub) (amap rint fy))))))"

text \<open>The whole reprojection, lines 113-319.\<close>

definition script ::
  "(sample \<Rightarrow> int) \<Rightarrow> wcs \<Rightarrow> wcs \<Rightarrow> image \<Rightarrow> image \<Rightarrow> error + state" where
  "script cast_ub w1 w2 im1 im2 =
     and_then (coordinate_mapper cast_ub w1 w2 im1) (\<lambda>((xa, ya), (ra, dec), (newx, newy)).
     and_then (resample im1 im2 newx newy) (\<lambda>(bmask, nd).
     Inr \<lparr>xarray = xa, yarray = ya, ra_array = ra, dec_array = dec,
          newxarray = newx, newyarray = newy, boolean_array = bmask, newdata = nd\<rparr>))"

section \<open>Readings of the code used in the statements\<close>

text \<open>
  What lines 274-291 compute at one pixel with the new coordinates \<open>x\<close> and \<open>y\<close>, for a
  first image of \<open>h1\<close> rows and \<open>w1\<close> columns and a second of \<open>h2\<close> rows and \<open>w2\<close>
  columns: the six tests in the order of the script, joined and negated.
\<close>

definition good_at :: "nat \<Rightarrow> nat \<Rightarrow> nat \<Rightarrow> nat \<Rightarrow> int \<Rightarrow> int \<Rightarrow> bool" where
  "good_at h1 w1 h2 w2 x y =
     (\<not> (((((x < 0 \<or> y < 0) \<or> x > int w1 - 1) \<or> y > int h1 - 1) \<or> x > int w2 - 1)
         \<or> y > int h2 - 1))"


text \<open>
  The mask as the specification's remark on redundancy would have it, without the two
  tests against the shape of the output (\<open>bad3\<close> and \<open>bad4\<close>): written after the
  specification, to be compared with \<open>validity_mask\<close>.
\<close>

definition validity_mask4 ::
  "('b, 'z) ndarray_scheme \<Rightarrow> int ndarray \<Rightarrow> int ndarray \<Rightarrow> error + bool ndarray" where
  "validity_mask4 im2 newx newy =
     (let bad1 = amap (\<lambda>x. x < 0) newx;
          bad2 = amap (\<lambda>y. y < 0) newy;
          bad5 = amap (\<lambda>x. x > int (shape1 im2) - 1) newx;
          bad6 = amap (\<lambda>y. y > int (shape0 im2) - 1) newy
      in and_then (logical_or bad1 bad2) (\<lambda>b.
         and_then (logical_or b bad5) (\<lambda>b.
         and_then (logical_or b bad6) (\<lambda>b.
         Inr (logical_not b)))))"

text \<open>
  Two small images in double precision, new coordinates for the first and a transform that
  changes nothing.
\<close>

definition ex_im1 :: image where
  "ex_im1 = \<lparr>shape0 = 2, shape1 = 2, flat = [Num 1, Num 2, Num 3, Num 4], dtype = Float64\<rparr>"

definition ex_im2 :: image where
  "ex_im2 = \<lparr>shape0 = 1, shape1 = 2, flat = [Num 7, Num 0], dtype = Float64\<rparr>"

definition ex_newx :: "int ndarray" where
  "ex_newx = \<lparr>shape0 = 2, shape1 = 2, flat = [0, 1, 2, - 1]\<rparr>"

definition ex_newy :: "int ndarray" where
  "ex_newy = \<lparr>shape0 = 2, shape1 = 2, flat = [0, 0, 0, 1]\<rparr>"

definition ex_wcs :: wcs where
  "ex_wcs = \<lparr>pix2world = (\<lambda>p. p), world2pix = (\<lambda>p. p)\<rparr>"

text \<open>A transform whose way back from the sky finds no pixel anywhere.\<close>

definition ex_nan_wcs :: wcs where
  "ex_nan_wcs = \<lparr>pix2world = (\<lambda>p. p), world2pix = (\<lambda>p. (NaN, PosInf))\<rparr>"

text \<open>
  Two machines: one converts what has no integer value to the most negative 64-bit
  integer, the other to 0.
\<close>

definition cast_min :: "sample \<Rightarrow> int" where
  "cast_min v = - (2 ^ 63)"


text \<open>
  A first image of one pixel in single precision, a second of one pixel in double
  precision whose sample has 25 significant bits, and the new coordinates \<open>(0, 0)\<close>.
\<close>

definition ex_im1_f32 :: image where
  "ex_im1_f32 = \<lparr>shape0 = 1, shape1 = 1, flat = [Num 1], dtype = Float32\<rparr>"

definition ex_im2_f64 :: image where
  "ex_im2_f64 = \<lparr>shape0 = 1, shape1 = 1, flat = [Num 16777217], dtype = Float64\<rparr>"

definition ex_origin :: "int ndarray" where
  "ex_origin = \<lparr>shape0 = 1, shape1 = 1, flat = [0]\<rparr>"

section \<open>The grid generator\<close>

lemma concat_rows_nth:
  "\<lbrakk>\<And>y. length (g y) = n; r < length ys; c < n\<rbrakk>
   \<Longrightarrow> concat (map g ys) ! (r * n + c) = g (ys ! r) ! c"
proof (induction ys arbitrary: r)
  case Nil
  then show ?case by simp
next
  case (Cons y ys)
  show ?case
  proof (cases r)
    case 0
    with Cons.prems show ?thesis by (simp add: nth_append)
  next
    case (Suc r')
    with Cons.prems have "r' < length ys" by simp
    from Cons.IH [OF Cons.prems(1) this Cons.prems(3)] Suc Cons.prems(1)
    show ?thesis by (simp add: nth_append)
  qed
qed

lemma concat_rows_length:
  "(\<And>y. length (g y) = n) \<Longrightarrow> length (concat (map g ys)) = length ys * n"
  by (induction ys) simp_all

lemma length_arange: "length (arange n) = nat n"
  by (simp add: arange_def)

lemma arange_nth: "i < nat n \<Longrightarrow> arange n ! i = int i"
  by (simp add: arange_def)

text \<open>
  C6: for positive \<open>H\<close> and \<open>W\<close> the grid generator returns two arrays of \<open>H\<close> rows and
  \<open>W\<close> columns, the first holding the column number \<open>c\<close> at every \<open>(r, c)\<close> and the second
  the row number \<open>r\<close>.
\<close>

theorem grid_generator_values:
  assumes "0 < H" and "0 < W"
  shows "\<exists>X Y. grid_generator H W = Inr (X, Y)
           \<and> has_shape X (nat H) (nat W) \<and> has_shape Y (nat H) (nat W)
           \<and> (\<forall>r < nat H. \<forall>c < nat W. item X r c = int c \<and> item Y r c = int r)"
proof -
  define X where "X = fst (meshgrid (arange W) (arange H))"
  define Y where "Y = snd (meshgrid (arange W) (arange H))"
  have g: "grid_generator H W = Inr (X, Y)"
    by (simp add: grid_generator_def X_def Y_def)
  have sX: "has_shape X (nat H) (nat W)"
    by (simp add: X_def meshgrid_def has_shape_def length_arange
        concat_rows_length [where n = "nat W"])
  have sY: "has_shape Y (nat H) (nat W)"
    by (simp add: Y_def meshgrid_def has_shape_def length_arange
        concat_rows_length [where n = "nat W"])
  have v: "item X r c = int c \<and> item Y r c = int r" if "r < nat H" "c < nat W" for r c
  proof
    show "item X r c = int c"
      using that
      by (simp add: X_def meshgrid_def item_def length_arange arange_nth
          concat_rows_nth [where n = "nat W"])
    show "item Y r c = int r"
      using that
      by (simp add: Y_def meshgrid_def item_def length_arange arange_nth
          concat_rows_nth [where n = "nat W"])
  qed
  from g sX sY v show ?thesis by blast
qed

theorem grid_generator_values_witness:
  "(0::int) < 2 \<and> (0::int) < 3
   \<and> (\<exists>X Y. grid_generator 2 3 = Inr (X, Y)
          \<and> has_shape X (nat 2) (nat 3) \<and> has_shape Y (nat 2) (nat 3)
          \<and> (\<forall>r < nat 2. \<forall>c < nat 3. item X r c = int c \<and> item Y r c = int r))"
  using grid_generator_values [of 2 3] by simp

text \<open>
  C4 as the script has it: a height or a width that is not positive is not refused. The
  grid generator returns two arrays without elements, a negative size counting as 0.
\<close>

theorem grid_generator_nonpositive:
  assumes "H \<le> 0 \<or> W \<le> 0"
  shows "grid_generator H W =
     Inr (\<lparr>shape0 = nat H, shape1 = nat W, flat = []\<rparr>,
          \<lparr>shape0 = nat H, shape1 = nat W, flat = []\<rparr>)"
  using assms by (auto simp: grid_generator_def meshgrid_def arange_def)

theorem grid_generator_nonpositive_witness:
  "((0::int) \<le> 0 \<or> (3::int) \<le> 0)
   \<and> grid_generator 0 3 =
     Inr (\<lparr>shape0 = nat 0, shape1 = nat 3, flat = []\<rparr>,
          \<lparr>shape0 = nat 0, shape1 = nat 3, flat = []\<rparr>)"
  using grid_generator_nonpositive [of 0 3] by simp

text \<open>
  C4 as stated fails: asked for 0 rows and 3 columns, the grid generator returns a grid
  (of shape \<open>(0, 3)\<close>) and no error.
\<close>

theorem grid_generator_rejects_counterexample:
  "grid_generator 0 3 =
     Inr (\<lparr>shape0 = 0, shape1 = 3, flat = []\<rparr>, \<lparr>shape0 = 0, shape1 = 3, flat = []\<rparr>)"
  by (simp add: grid_generator_def meshgrid_def arange_def)

section \<open>Single precision\<close>

text \<open>The exponent that \<open>ilog2\<close> computes is the one of its argument.\<close>

lemma ilog2_bounds:
  assumes "0 < a"
  shows "pow2 (ilog2 a) \<le> a \<and> a < pow2 (ilog2 a + 1)"
proof (cases "1 \<le> a")
  case True
  define n where "n = \<lfloor>a\<rfloor>"
  from True have n: "0 < n" by (simp add: n_def)
  then have b1: "1 \<le> bitlen n" by (simp add: bitlen_alt_def)
  from bitlen_bounds [OF n] have lo: "2 ^ nat (bitlen n - 1) \<le> n" and hi: "n < 2 ^ nat (bitlen n)"
    by simp_all
  have "real_of_int (2 ^ nat (bitlen n - 1)) \<le> real_of_int n"
    using lo by (simp only: of_int_le_iff)
  also have "\<dots> \<le> a" by (simp add: n_def)
  finally have l: "2 ^ nat (bitlen n - 1) \<le> a" by simp
  from hi have "n + 1 \<le> 2 ^ nat (bitlen n)" by simp
  then have "real_of_int (n + 1) \<le> real_of_int (2 ^ nat (bitlen n))"
    by (simp only: of_int_le_iff)
  moreover have "a < real_of_int (n + 1)" by (simp add: n_def)
  ultimately have h: "a < 2 ^ nat (bitlen n)" by simp
  from True b1 l h show ?thesis
    by (simp add: ilog2_def pow2_def n_def [symmetric])
next
  case False
  define k where "k = \<lceil>1 / a\<rceil>"
  from False assms have x: "1 < 1 / a" by simp
  then have k: "0 < k - 1" by (simp add: k_def less_ceiling_iff)
  then have b1: "1 \<le> bitlen (k - 1)" by (simp add: bitlen_alt_def)
  from bitlen_bounds [OF k] have lo: "2 ^ nat (bitlen (k - 1) - 1) \<le> k - 1"
    and hi: "k - 1 < 2 ^ nat (bitlen (k - 1))"
    by simp_all
  from hi have "k \<le> 2 ^ nat (bitlen (k - 1))" by simp
  then have "real_of_int k \<le> real_of_int (2 ^ nat (bitlen (k - 1)))"
    by (simp only: of_int_le_iff)
  then have "real_of_int k \<le> 2 ^ nat (bitlen (k - 1))" by simp
  moreover have "1 / a \<le> real_of_int k" by (simp add: k_def)
  ultimately have "1 / a \<le> 2 ^ nat (bitlen (k - 1))" by linarith
  with assms have l: "1 / 2 ^ nat (bitlen (k - 1)) \<le> a"
    by (simp add: field_simps)
  have "real_of_int (2 ^ nat (bitlen (k - 1) - 1)) \<le> real_of_int (k - 1)"
    using lo by (simp only: of_int_le_iff)
  then have "2 ^ nat (bitlen (k - 1) - 1) \<le> real_of_int (k - 1)" by simp
  moreover have "real_of_int (k - 1) < 1 / a"
    unfolding k_def by linarith
  ultimately have "2 ^ nat (bitlen (k - 1) - 1) < 1 / a" by linarith
  with assms have h: "a < 1 / 2 ^ nat (bitlen (k - 1) - 1)"
    by (simp add: field_simps)
  have e: "nat (bitlen (k - 1) - 1) = nat (bitlen (k - 1)) - 1"
    by (simp add: nat_diff_distrib')
  show ?thesis
  proof (cases "bitlen (k - 1) = 1")
    case True
    with False l h show ?thesis
      by (simp add: ilog2_def pow2_def k_def [symmetric])
  next
    case F: False
    with b1 have "1 < bitlen (k - 1)" by simp
    moreover from this have "nat (bitlen (k - 1) - 1) = nat (- (1 - bitlen (k - 1)))" by simp
    ultimately show ?thesis
      using False l h by (simp add: ilog2_def pow2_def k_def [symmetric])
  qed
qed

text \<open>
  Rounding to single precision at an integer of 25 bits, a decimal fraction, a small
  integer, the overflow threshold and a number below the smallest step.
\<close>

lemma round_float32_examples:
  "round_float32 16777217 = Num 16777216"
  "round_float32 (1 / 10) = Num (13421773 / 134217728)"
  "round_float32 (- 7) = Num (- 7)"
  "round_float32 (2 ^ 128) = PosInf"
  "round_float32 (2 ^ 128 - 2 ^ 103) = PosInf"
  "round_float32 (- (2 ^ 128)) = NegInf"
  "round_float32 (1 / 2 ^ 150) = Num 0"
  by code_simp+

section \<open>The resampler\<close>

lemma and_then_Inr [simp]: "and_then (Inr x) f = f x"
  by (simp add: and_then_def)

lemma and_then_Inl [simp]: "and_then (Inl e) f = Inl e"
  by (simp add: and_then_def)

lemma validity_mask_eq:
  assumes "shape0 newy = shape0 newx" and "shape1 newy = shape1 newx"
  shows "validity_mask nd im2 newx newy =
    Inr \<lparr>shape0 = shape0 newx, shape1 = shape1 newx,
         flat = map2 (good_at (shape0 nd) (shape1 nd) (shape0 im2) (shape1 im2))
                  (flat newx) (flat newy)\<rparr>"
proof -
  have "map (\<lambda>p. \<not> p)
     (map2 (\<or>) (map2 (\<or>) (map2 (\<or>) (map2 (\<or>) (map2 (\<or>)
        (map (\<lambda>x. x < 0) xs) (map (\<lambda>y. y < 0) ys))
        (map (\<lambda>x. x > a) xs)) (map (\<lambda>y. y > b) ys))
        (map (\<lambda>x. x > c) xs)) (map (\<lambda>y. y > d) ys))
    = map2 (\<lambda>x y. \<not> (((((x < 0 \<or> y < 0) \<or> x > a) \<or> y > b) \<or> x > c) \<or> y > d)) xs ys"
    for xs ys :: "int list" and a b c d
    by (rule nth_equalityI) simp_all
  then show ?thesis
    using assms
    by (simp add: validity_mask_def logical_or_def logical_not_def elementwise2_def amap_def
        good_at_def [abs_def])
qed

lemma fancy_index_compress:
  assumes "length ms = length ys" and "length ys = length xs"
    and "\<forall>(m, y, x) \<in> set (zip ms (zip ys xs)).
           m \<longrightarrow> 0 \<le> y \<and> y < int (shape0 a) \<and> 0 \<le> x \<and> x < int (shape1 a)"
  shows "fancy_index a (compress ms ys) (compress ms xs) =
         Inr (compress ms (map2 (\<lambda>y x. item a (nat y) (nat x)) ys xs))"
  using assms
  by (induction ms ys xs rule: list_induct3) (auto simp: compress_def getitem2_def)

lemma length_compress:
  "length ms = length vs \<Longrightarrow> length (compress ms vs) = length (filter (\<lambda>m. m) ms)"
  by (induction ms vs rule: list_induct2) (auto simp: compress_def)

lemma put_mask_compress:
  assumes "length ds = length ms" and "length ms = length vs"
  shows "put_mask ds ms (compress ms vs) = map2 (\<lambda>d (m, v). if m then v else d) ds (zip ms vs)"
  using assms
  by (induction ds ms vs rule: list_induct3) (auto simp: compress_def)

lemma zip_map_same: "zip xs (map f xs) = map (\<lambda>x. (x, f x)) xs"
  by (induction xs) simp_all

lemma astype_NaN [simp]: "astype dt NaN = NaN"
  by (cases dt) simp_all

lemma astype_zero [simp]: "astype dt (Num 0) = Num 0"
  by (cases dt) (simp_all add: round_float32_def)

lemma zeros_to_nan_eq:
  "zeros_to_nan a = Inr (a\<lparr>flat := map (\<lambda>v. if eq_zero v then NaN else v) (flat a)\<rparr>)"
  by (simp add: zeros_to_nan_def setitem_mask_scalar_def amap_def zip_map_same)

lemma nan_to_zeros_eq:
  "nan_to_zeros a = Inr (a\<lparr>flat := map (\<lambda>v. if isnan v then Num 0 else v) (flat a)\<rparr>)"
  by (simp add: nan_to_zeros_def setitem_mask_scalar_def amap_def zip_map_same)

lemma three_passes_pointwise:
  "(if eq_zero (if isnan (if eq_zero v then NaN else v) then Num 0 else (if eq_zero v then NaN else v))
    then NaN else (if isnan (if eq_zero v then NaN else v) then Num 0 else (if eq_zero v then NaN else v)))
   = (if eq_zero v then NaN else v)"
  by (cases v) simp_all

lemma sentinel_passes_eq: "sentinel_passes a = zeros_to_nan a"
  by (simp add: sentinel_passes_def zeros_to_nan_eq nan_to_zeros_eq o_def
      three_passes_pointwise)

lemma compress_map: "map f (compress ms xs) = compress ms (map f xs)"
  by (induction ms arbitrary: xs) (auto simp: compress_def zip_Cons1 split: list.splits)

lemma zip_map2_good:
  "(m, y, x) \<in> set (zip (map2 G xs ys) (zip ys xs)) \<Longrightarrow> m = G x y"
  by (induction xs arbitrary: ys) (auto simp: zip_Cons1 split: list.splits)

lemma index_bound: "r < h \<Longrightarrow> c < w \<Longrightarrow> r * w + c < h * (w::nat)"
proof -
  assume a: "r < h" "c < w"
  then have "r * w + c < Suc r * w" by simp
  also from a have "\<dots> \<le> h * w" by (intro mult_le_mono1) simp
  finally show ?thesis .
qed

lemma copy_valid_eq:
  assumes "has_shape newx (shape0 nd) (shape1 nd)" and "has_shape newy (shape0 nd) (shape1 nd)"
    and "length (flat nd) = shape0 nd * shape1 nd"
  shows "copy_valid nd im2 newx newy
     \<lparr>shape0 = shape0 nd, shape1 = shape1 nd,
      flat = map2 (good_at h1 w1 (shape0 im2) (shape1 im2)) (flat newx) (flat newy)\<rparr> =
    Inr (nd\<lparr>flat := map2 (\<lambda>d (x, y). if good_at h1 w1 (shape0 im2) (shape1 im2) x y
                                  then astype (dtype nd) (item im2 (nat y) (nat x)) else d)
                  (flat nd) (zip (flat newx) (flat newy))\<rparr>)"
proof -
  let ?G = "good_at h1 w1 (shape0 im2) (shape1 im2)"
  let ?xs = "flat newx" and ?ys = "flat newy"
  let ?ms = "map2 ?G ?xs ?ys"
  let ?vs = "map2 (\<lambda>y x. item im2 (nat y) (nat x)) ?ys ?xs"
  let ?cs = "map (astype (dtype nd)) ?vs"
  from assms have len: "length ?xs = length (flat nd)" "length ?ys = length (flat nd)"
    and sh: "shape0 newx = shape0 nd" "shape1 newx = shape1 nd"
            "shape0 newy = shape0 nd" "shape1 newy = shape1 nd"
    by (simp_all add: has_shape_def)
  have lms: "length ?ms = length ?ys" "length ?ys = length ?xs" "length ?ms = length ?vs"
    "length (flat nd) = length ?ms" "length ?ms = length ?cs"
    using len by simp_all
  have inb: "\<forall>(m, y, x) \<in> set (zip ?ms (zip ?ys ?xs)).
       m \<longrightarrow> 0 \<le> y \<and> y < int (shape0 im2) \<and> 0 \<le> x \<and> x < int (shape1 im2)"
    by (auto dest!: zip_map2_good simp: good_at_def)
  have fi: "fancy_index im2 (compress ?ms ?ys) (compress ?ms ?xs) = Inr (compress ?ms ?vs)"
    by (rule fancy_index_compress [OF lms(1) lms(2) inb])
  have pm: "put_mask (flat nd) ?ms (map (astype (dtype nd)) (compress ?ms ?vs)) =
      map2 (\<lambda>d (m, v). if m then v else d) (flat nd) (zip ?ms ?cs)"
    unfolding compress_map by (rule put_mask_compress [OF lms(4) lms(5)])
  have eq: "map2 (\<lambda>d (m, v). if m then v else d) (flat nd) (zip ?ms ?cs) =
      map2 (\<lambda>d (x, y). if ?G x y then astype (dtype nd) (item im2 (nat y) (nat x)) else d)
         (flat nd) (zip ?xs ?ys)"
    using len by (intro nth_equalityI) simp_all
  have gy: "getitem_mask newy \<lparr>shape0 = shape0 nd, shape1 = shape1 nd, flat = ?ms\<rparr>
      = Inr (compress ?ms ?ys)"
    and gx: "getitem_mask newx \<lparr>shape0 = shape0 nd, shape1 = shape1 nd, flat = ?ms\<rparr>
      = Inr (compress ?ms ?xs)"
    using sh by (simp_all add: getitem_mask_def)
  have lc: "length (compress ?ms ?vs) = length (filter (\<lambda>m. m) ?ms)"
    by (rule length_compress [OF lms(3)])
  have "setitem_mask nd \<lparr>shape0 = shape0 nd, shape1 = shape1 nd, flat = ?ms\<rparr>
      (compress ?ms ?vs) =
    Inr (nd\<lparr>flat := put_mask (flat nd) ?ms (map (astype (dtype nd)) (compress ?ms ?vs))\<rparr>)"
    using lc by (simp add: setitem_mask_def)
  then show ?thesis
    unfolding copy_valid_def gy gx fi and_then_Inr pm eq .
qed

lemma resample_eq:
  assumes "has_shape newx (shape0 im1) (shape1 im1)"
    and "has_shape newy (shape0 im1) (shape1 im1)"
  shows "resample im1 im2 newx newy =
    Inr (\<lparr>shape0 = shape0 im1, shape1 = shape1 im1,
          flat = map2 (good_at (shape0 im1) (shape1 im1) (shape0 im2) (shape1 im2))
                   (flat newx) (flat newy)\<rparr>,
         \<lparr>shape0 = shape0 im1, shape1 = shape1 im1,
          flat = map2 (\<lambda>x y.
                   if good_at (shape0 im1) (shape1 im1) (shape0 im2) (shape1 im2) x y
                      \<and> \<not> eq_zero (astype (dtype im1) (item im2 (nat y) (nat x)))
                   then astype (dtype im1) (item im2 (nat y) (nat x)) else NaN)
                   (flat newx) (flat newy),
          dtype = dtype im1\<rparr>)"
proof -
  let ?nd = "zeros_like im1"
  have nd: "shape0 ?nd = shape0 im1" "shape1 ?nd = shape1 im1"
    "length (flat ?nd) = shape0 ?nd * shape1 ?nd" "dtype ?nd = dtype im1"
    by (simp_all add: zeros_like_def)
  from assms have sx: "has_shape newx (shape0 ?nd) (shape1 ?nd)"
    and sy: "has_shape newy (shape0 ?nd) (shape1 ?nd)"
    by (simp_all add: nd)
  from assms have sh: "shape0 newy = shape0 newx" "shape1 newy = shape1 newx"
    "shape0 newx = shape0 im1" "shape1 newx = shape1 im1"
    and len: "length (flat newx) = shape0 im1 * shape1 im1"
             "length (flat newy) = shape0 im1 * shape1 im1"
    by (simp_all add: has_shape_def)
  have vm: "validity_mask ?nd im2 newx newy =
      Inr \<lparr>shape0 = shape0 ?nd, shape1 = shape1 ?nd,
           flat = map2 (good_at (shape0 im1) (shape1 im1) (shape0 im2) (shape1 im2))
                    (flat newx) (flat newy)\<rparr>"
    using validity_mask_eq [OF sh(1) sh(2), of ?nd im2] sh by (simp add: nd)
  have fl: "map (\<lambda>v. if eq_zero v then NaN else v)
        (map2 (\<lambda>d (x, y). if G x y then F y x else d)
           (replicate n (Num 0)) (zip xs ys)) =
      map2 (\<lambda>x y. if G x y \<and> \<not> eq_zero (F y x) then F y x else NaN) xs ys"
    if "length xs = n" "length ys = n" for G F n and xs ys :: "int list"
    using that by (intro nth_equalityI) simp_all
  show ?thesis
    unfolding resample_def Let_def vm and_then_Inr
      copy_valid_eq [OF sx sy nd(3), unfolded nd(4)] sentinel_passes_eq zeros_to_nan_eq
    using len
    by (simp add: zeros_like_def fl del: map_map)
qed

text \<open>The resampler on the example.\<close>

lemma resample_example:
  "resample ex_im1 ex_im2 ex_newx ex_newy =
    Inr (\<lparr>shape0 = 2, shape1 = 2, flat = [True, True, False, False]\<rparr>,
         \<lparr>shape0 = 2, shape1 = 2, flat = [Num 7, NaN, NaN, NaN], dtype = Float64\<rparr>)"
  by (simp add: resample_eq has_shape_def good_at_def item_def
      ex_im1_def ex_im2_def ex_newx_def ex_newy_def)

text \<open>
  C10: the three passes of lines 310, 315 and 319 give the array that the one pass
  "zeros to NaN" gives, and in it a zero or a NaN of the array before is NaN and every
  other element is as before.
\<close>

theorem sentinel_passes_single:
  "sentinel_passes a = zeros_to_nan a
   \<and> zeros_to_nan a
       = Inr (a\<lparr>flat := map (\<lambda>v. if eq_zero v \<or> isnan v then NaN else v) (flat a)\<rparr>)"
proof
  show "sentinel_passes a = zeros_to_nan a"
    by (rule sentinel_passes_eq)
next
  have "(if eq_zero v then NaN else v) = (if eq_zero v \<or> isnan v then NaN else v)" for v
    by (cases v) simp_all
  then have "(\<lambda>v. if eq_zero v then NaN else v) = (\<lambda>v. if eq_zero v \<or> isnan v then NaN else v)"
    by (intro ext)
  then show "zeros_to_nan a
      = Inr (a\<lparr>flat := map (\<lambda>v. if eq_zero v \<or> isnan v then NaN else v) (flat a)\<rparr>)"
    by (simp only: zeros_to_nan_eq)
qed

lemma item_map2:
  assumes "length xs = h * w" and "length ys = h * w" and "r < h" and "c < w"
  shows "item \<lparr>shape0 = h, shape1 = w, flat = map2 f xs ys, \<dots> = z\<rparr> r c
         = f (xs ! (r * w + c)) (ys ! (r * w + c))"
  using assms index_bound [of r h c w] by (simp add: item_def)

text \<open>
  C1: for coordinate arrays of the shape of the first image and a position \<open>(r, c)\<close> in
  it, if the new x or the new y there is below 0, above the last column or row of the
  output, or above the last column or row of the second image, then the resampler returns
  a mask that is false at \<open>(r, c)\<close> and data that are NaN, the missing-data marker, at
  \<open>(r, c)\<close>.
\<close>

theorem mask_correctness:
  assumes "has_shape newx (shape0 im1) (shape1 im1)"
    and "has_shape newy (shape0 im1) (shape1 im1)"
    and "r < shape0 im1" and "c < shape1 im1"
    and "item newx r c < 0 \<or> item newx r c > int (shape1 im1) - 1
         \<or> item newx r c > int (shape1 im2) - 1
         \<or> item newy r c < 0 \<or> item newy r c > int (shape0 im1) - 1
         \<or> item newy r c > int (shape0 im2) - 1"
  shows "\<exists>m out. resample im1 im2 newx newy = Inr (m, out)
           \<and> \<not> item m r c \<and> item out r c = NaN"
proof -
  from assms(1,2) have len: "length (flat newx) = shape0 im1 * shape1 im1"
      "length (flat newy) = shape0 im1 * shape1 im1"
    and w: "shape1 newx = shape1 im1" "shape1 newy = shape1 im1"
    by (simp_all add: has_shape_def)
  have bad: "\<not> good_at (shape0 im1) (shape1 im1) (shape0 im2) (shape1 im2)
               (flat newx ! (r * shape1 im1 + c)) (flat newy ! (r * shape1 im1 + c))"
    using assms(5) by (auto simp: good_at_def item_def w)
  show ?thesis
    unfolding resample_eq [OF assms(1,2)]
    using bad by (simp add: item_map2 [OF len assms(3,4)])
qed

theorem mask_correctness_witness:
  "has_shape ex_newx (shape0 ex_im1) (shape1 ex_im1)
   \<and> has_shape ex_newy (shape0 ex_im1) (shape1 ex_im1)
   \<and> 1 < shape0 ex_im1 \<and> 0 < shape1 ex_im1
   \<and> item ex_newx 1 0 > int (shape1 ex_im2) - 1
   \<and> (\<exists>m out. resample ex_im1 ex_im2 ex_newx ex_newy = Inr (m, out)
         \<and> \<not> item m 1 0 \<and> item out 1 0 = NaN)"
  using mask_correctness [of ex_newx ex_im1 ex_newy 1 0 ex_im2]
  by (simp add: has_shape_def item_def ex_im1_def ex_im2_def ex_newx_def ex_newy_def)

text \<open>
  C2 as the script has it: every element of the data the resampler returns is either NaN,
  the missing-data marker, or the element of the second image at the row and column that
  the new coordinates of its position name, which then lie inside the second image,
  converted to the dtype of the first image; it is that element itself when the conversion
  leaves it as it is, as it does in every case when the first image is in double precision.
\<close>

theorem sentinel_consistency:
  assumes "has_shape newx (shape0 im1) (shape1 im1)"
    and "has_shape newy (shape0 im1) (shape1 im1)"
    and "r < shape0 im1" and "c < shape1 im1"
  shows "\<exists>m out. resample im1 im2 newx newy = Inr (m, out)
           \<and> (item out r c = NaN
              \<or> (0 \<le> item newy r c \<and> item newy r c < int (shape0 im2)
                 \<and> 0 \<le> item newx r c \<and> item newx r c < int (shape1 im2)
                 \<and> item out r c
                     = astype (dtype im1) (item im2 (nat (item newy r c)) (nat (item newx r c)))))
           \<and> (astype (dtype im1) (item im2 (nat (item newy r c)) (nat (item newx r c)))
                = item im2 (nat (item newy r c)) (nat (item newx r c))
               \<or> dtype im1 = Float64
              \<longrightarrow> item out r c = NaN
                  \<or> item out r c = item im2 (nat (item newy r c)) (nat (item newx r c)))"
proof -
  from assms(1,2) have len: "length (flat newx) = shape0 im1 * shape1 im1"
      "length (flat newy) = shape0 im1 * shape1 im1"
    and w: "shape1 newx = shape1 im1" "shape1 newy = shape1 im1"
    by (simp_all add: has_shape_def)
  show ?thesis
    unfolding resample_eq [OF assms(1,2)]
    by (auto simp: item_map2 [OF len assms(3,4)] good_at_def item_def [of newx]
        item_def [of newy] w)
qed

theorem sentinel_consistency_witness:
  "has_shape ex_newx (shape0 ex_im1) (shape1 ex_im1)
   \<and> has_shape ex_newy (shape0 ex_im1) (shape1 ex_im1)
   \<and> 0 < shape0 ex_im1 \<and> 0 < shape1 ex_im1
   \<and> (\<exists>m out. resample ex_im1 ex_im2 ex_newx ex_newy = Inr (m, out)
         \<and> (item out 0 0 = NaN
            \<or> (0 \<le> item ex_newy 0 0 \<and> item ex_newy 0 0 < int (shape0 ex_im2)
               \<and> 0 \<le> item ex_newx 0 0 \<and> item ex_newx 0 0 < int (shape1 ex_im2)
               \<and> item out 0 0
                   = astype (dtype ex_im1)
                       (item ex_im2 (nat (item ex_newy 0 0)) (nat (item ex_newx 0 0)))))
         \<and> (item out 0 0 = NaN
            \<or> item out 0 0 = item ex_im2 (nat (item ex_newy 0 0)) (nat (item ex_newx 0 0))))"
  using sentinel_consistency [of ex_newx ex_im1 ex_newy 0 0 ex_im2]
  by (simp add: has_shape_def ex_im1_def ex_newx_def ex_newy_def)

text \<open>
  C2 as stated fails: with a first image in single precision and a second in double
  precision whose sample at \<open>(0, 0)\<close> is 16777217, the pixel is good and the output holds
  16777216 there, which is neither the sample of the second image nor NaN.
\<close>

theorem sentinel_consistency_counterexample:
  "resample ex_im1_f32 ex_im2_f64 ex_origin ex_origin =
     Inr (\<lparr>shape0 = 1, shape1 = 1, flat = [True]\<rparr>,
          \<lparr>shape0 = 1, shape1 = 1, flat = [Num 16777216], dtype = Float32\<rparr>)
   \<and> item ex_im2_f64 (nat (item ex_origin 0 0)) (nat (item ex_origin 0 0)) = Num 16777217"
  by code_simp

lemma zip_compress:
  "length ms = length ys \<Longrightarrow> length ys = length xs
   \<Longrightarrow> zip (compress ms ys) (compress ms xs) = compress ms (zip ys xs)"
  by (induction ms ys xs rule: list_induct3) (auto simp: compress_def)

lemma compress_good:
  "(y, x) \<in> set (compress (map2 G xs ys) (zip ys xs)) \<Longrightarrow> G x y"
  by (auto simp: compress_def dest: zip_map2_good)

text \<open>
  C9: where the mask is true the new coordinates are a row and a column of the second
  image, from 0 to the last; so the index arrays that lines 302-303 cut out by the mask
  hold only such pairs, each read takes the element at exactly that row and column (no
  index is negative, none counts from the end), and the read raises no IndexError.
\<close>

theorem copy_reads_in_bounds:
  assumes "has_shape newx (shape0 im1) (shape1 im1)"
    and "has_shape newy (shape0 im1) (shape1 im1)"
  shows "\<exists>m ys xs vals.
      validity_mask (zeros_like im1) im2 newx newy = Inr m
    \<and> (\<forall>r < shape0 im1. \<forall>c < shape1 im1. item m r c \<longrightarrow>
          0 \<le> item newx r c \<and> item newx r c \<le> int (shape1 im2) - 1
        \<and> 0 \<le> item newy r c \<and> item newy r c \<le> int (shape0 im2) - 1)
    \<and> getitem_mask newy m = Inr ys \<and> getitem_mask newx m = Inr xs
    \<and> length ys = length xs
    \<and> (\<forall>(y, x) \<in> set (zip ys xs).
          0 \<le> x \<and> x \<le> int (shape1 im2) - 1 \<and> 0 \<le> y \<and> y \<le> int (shape0 im2) - 1
        \<and> getitem2 im2 y x = Inr (item im2 (nat y) (nat x)))
    \<and> fancy_index im2 ys xs = Inr vals"
proof -
  let ?G = "good_at (shape0 im1) (shape1 im1) (shape0 im2) (shape1 im2)"
  let ?xs = "flat newx" and ?ys = "flat newy"
  let ?ms = "map2 ?G ?xs ?ys"
  let ?m = "\<lparr>shape0 = shape0 im1, shape1 = shape1 im1, flat = ?ms\<rparr>"
  from assms have sh: "shape0 newy = shape0 newx" "shape1 newy = shape1 newx"
    "shape0 newx = shape0 im1" "shape1 newx = shape1 im1"
    and len: "length ?xs = shape0 im1 * shape1 im1" "length ?ys = shape0 im1 * shape1 im1"
    by (simp_all add: has_shape_def)
  have lms: "length ?ms = length ?ys" "length ?ys = length ?xs"
    using len by simp_all
  have vm: "validity_mask (zeros_like im1) im2 newx newy = Inr ?m"
    using validity_mask_eq [OF sh(1) sh(2), of "zeros_like im1" im2] sh
    by (simp add: zeros_like_def)
  have pos: "0 \<le> item newx r c \<and> item newx r c \<le> int (shape1 im2) - 1
        \<and> 0 \<le> item newy r c \<and> item newy r c \<le> int (shape0 im2) - 1"
    if "r < shape0 im1" "c < shape1 im1" "item ?m r c" for r c
    using that(3) sh
    by (simp add: item_map2 [OF len that(1,2)] good_at_def item_def [of newx] item_def [of newy])
  have gy: "getitem_mask newy ?m = Inr (compress ?ms ?ys)"
    and gx: "getitem_mask newx ?m = Inr (compress ?ms ?xs)"
    using sh by (simp_all add: getitem_mask_def)
  have ll: "length (compress ?ms ?ys) = length (compress ?ms ?xs)"
    using lms by (simp add: length_compress)
  have inb: "0 \<le> x \<and> x \<le> int (shape1 im2) - 1 \<and> 0 \<le> y \<and> y \<le> int (shape0 im2) - 1
        \<and> getitem2 im2 y x = Inr (item im2 (nat y) (nat x))"
    if "(y, x) \<in> set (zip (compress ?ms ?ys) (compress ?ms ?xs))" for y x
  proof -
    from that have "?G x y"
      unfolding zip_compress [OF lms] by (rule compress_good)
    then show ?thesis by (simp add: good_at_def getitem2_def)
  qed
  have all: "\<forall>(m, y, x) \<in> set (zip ?ms (zip ?ys ?xs)).
       m \<longrightarrow> 0 \<le> y \<and> y < int (shape0 im2) \<and> 0 \<le> x \<and> x < int (shape1 im2)"
    by (auto dest!: zip_map2_good simp: good_at_def)
  have fi: "fancy_index im2 (compress ?ms ?ys) (compress ?ms ?xs) =
      Inr (compress ?ms (map2 (\<lambda>y x. item im2 (nat y) (nat x)) ?ys ?xs))"
    by (rule fancy_index_compress [OF lms all])
  from vm pos gy gx ll inb fi show ?thesis
    by (intro exI [of _ ?m] exI [of _ "compress ?ms ?ys"] exI [of _ "compress ?ms ?xs"]
        exI [of _ "compress ?ms (map2 (\<lambda>y x. item im2 (nat y) (nat x)) ?ys ?xs)"]) blast
qed

theorem copy_reads_in_bounds_witness:
  "has_shape ex_newx (shape0 ex_im1) (shape1 ex_im1)
   \<and> has_shape ex_newy (shape0 ex_im1) (shape1 ex_im1)
   \<and> (\<exists>m ys xs vals.
      validity_mask (zeros_like ex_im1) ex_im2 ex_newx ex_newy = Inr m
    \<and> (\<forall>r < shape0 ex_im1. \<forall>c < shape1 ex_im1. item m r c \<longrightarrow>
          0 \<le> item ex_newx r c \<and> item ex_newx r c \<le> int (shape1 ex_im2) - 1
        \<and> 0 \<le> item ex_newy r c \<and> item ex_newy r c \<le> int (shape0 ex_im2) - 1)
    \<and> getitem_mask ex_newy m = Inr ys \<and> getitem_mask ex_newx m = Inr xs
    \<and> length ys = length xs
    \<and> (\<forall>(y, x) \<in> set (zip ys xs).
          0 \<le> x \<and> x \<le> int (shape1 ex_im2) - 1 \<and> 0 \<le> y \<and> y \<le> int (shape0 ex_im2) - 1
        \<and> getitem2 ex_im2 y x = Inr (item ex_im2 (nat y) (nat x)))
    \<and> fancy_index ex_im2 ys xs = Inr vals)"
  using copy_reads_in_bounds [of ex_newx ex_im1 ex_newy ex_im2]
  by (simp add: has_shape_def ex_im1_def ex_newx_def ex_newy_def)

lemma validity_mask4_eq:
  assumes "shape0 newy = shape0 newx" and "shape1 newy = shape1 newx"
  shows "validity_mask4 im2 newx newy =
    Inr \<lparr>shape0 = shape0 newx, shape1 = shape1 newx,
         flat = map2 (\<lambda>x y. \<not> (((x < 0 \<or> y < 0) \<or> x > int (shape1 im2) - 1)
                                 \<or> y > int (shape0 im2) - 1))
                  (flat newx) (flat newy)\<rparr>"
proof -
  have "map (\<lambda>p. \<not> p)
     (map2 (\<or>) (map2 (\<or>) (map2 (\<or>)
        (map (\<lambda>x. x < 0) xs) (map (\<lambda>y. y < 0) ys))
        (map (\<lambda>x. x > c) xs)) (map (\<lambda>y. y > d) ys))
    = map2 (\<lambda>x y. \<not> (((x < 0 \<or> y < 0) \<or> x > c) \<or> y > d)) xs ys"
    for xs ys :: "int list" and c d
    by (rule nth_equalityI) simp_all
  then show ?thesis
    using assms
    by (simp add: validity_mask4_def logical_or_def logical_not_def elementwise2_def amap_def)
qed

lemma validity_mask_mismatch:
  assumes "\<not> (shape0 newy = shape0 newx \<and> shape1 newy = shape1 newx)"
  shows "validity_mask nd im2 newx newy = Inl ValueError"
    and "validity_mask4 im2 newx newy = Inl ValueError"
  using assms
  by (auto simp: validity_mask_def validity_mask4_def logical_or_def elementwise2_def
      amap_def Let_def)

text \<open>
  C7 as the script has it: when the second image has no more rows and no more columns than
  the output, the mask of the six tests is the mask of the four tests that leave out the
  two against the shape of the output.
\<close>

theorem destination_checks_redundant:
  assumes "shape0 im2 \<le> shape0 nd" and "shape1 im2 \<le> shape1 nd"
  shows "validity_mask nd im2 newx newy = validity_mask4 im2 newx newy"
proof (cases "shape0 newy = shape0 newx \<and> shape1 newy = shape1 newx")
  case True
  have "good_at (shape0 nd) (shape1 nd) (shape0 im2) (shape1 im2) =
      (\<lambda>x y. \<not> (((x < 0 \<or> y < 0) \<or> x > int (shape1 im2) - 1) \<or> y > int (shape0 im2) - 1))"
    using assms by (intro ext) (auto simp: good_at_def)
  with True show ?thesis
    by (simp add: validity_mask_eq validity_mask4_eq)
next
  case False
  then show ?thesis
    by (auto simp: validity_mask_def validity_mask4_def logical_or_def elementwise2_def
        amap_def Let_def)
qed

theorem destination_checks_redundant_witness:
  "shape0 ex_im2 \<le> shape0 (zeros_like ex_im1) \<and> shape1 ex_im2 \<le> shape1 (zeros_like ex_im1)
   \<and> validity_mask (zeros_like ex_im1) ex_im2 ex_newx ex_newy
       = validity_mask4 ex_im2 ex_newx ex_newy
   \<and> validity_mask4 ex_im2 ex_newx ex_newy
       = Inr \<lparr>shape0 = 2, shape1 = 2, flat = [True, True, False, False]\<rparr>"
  using destination_checks_redundant [of ex_im2 "zeros_like ex_im1" ex_newx ex_newy]
  by (simp add: validity_mask4_eq zeros_like_def ex_im1_def ex_im2_def ex_newx_def ex_newy_def)

text \<open>
  C7 as stated fails: for an output of one pixel, a second image of 2 by 2 pixels and the new
  coordinates \<open>x = 1\<close>, \<open>y = 0\<close>, the six tests call the pixel bad (\<open>x\<close> is above the last
  column of the output) and the four tests call it good.
\<close>

theorem destination_checks_redundant_counterexample:
  "validity_mask \<lparr>shape0 = 1, shape1 = 1, flat = [Num 0]\<rparr>
       \<lparr>shape0 = 2, shape1 = 2, flat = [Num 1, Num 2, Num 3, Num 4]\<rparr>
       \<lparr>shape0 = 1, shape1 = 1, flat = [1]\<rparr> \<lparr>shape0 = 1, shape1 = 1, flat = [0]\<rparr>
     = Inr \<lparr>shape0 = 1, shape1 = 1, flat = [False]\<rparr>
   \<and> validity_mask4 \<lparr>shape0 = 2, shape1 = 2, flat = [Num 1, Num 2, Num 3, Num 4]\<rparr>
       \<lparr>shape0 = 1, shape1 = 1, flat = [1]\<rparr> \<lparr>shape0 = 1, shape1 = 1, flat = [0]\<rparr>
     = Inr \<lparr>shape0 = 1, shape1 = 1, flat = [True]\<rparr>"
  by (simp add: validity_mask_def validity_mask4_def logical_or_def logical_not_def
      elementwise2_def amap_def)

section \<open>The whole script\<close>

lemma map2_fst_snd: "map2 (\<lambda>a b. f (a, b)) (map fst ps) (map snd ps) = map f ps"
  by (induction ps) simp_all

lemma meshgrid_shape:
  "shape0 (fst (meshgrid xs ys)) = length ys" "shape1 (fst (meshgrid xs ys)) = length xs"
  "shape0 (snd (meshgrid xs ys)) = length ys" "shape1 (snd (meshgrid xs ys)) = length xs"
  "length (flat (fst (meshgrid xs ys))) = length ys * length xs"
  "length (flat (snd (meshgrid xs ys))) = length ys * length xs"
  by (simp_all add: meshgrid_def concat_rows_length [where n = "length xs"])

lemma coordinate_mapper_eq:
  "coordinate_mapper cast_ub w1 w2 im1 =
    (let g = meshgrid (arange (int (shape1 im1))) (arange (int (shape0 im1)));
         sky = map2 (\<lambda>x y. pix2world w1 (Num (of_int x), Num (of_int y)))
                 (flat (fst g)) (flat (snd g));
         pix = map (world2pix w2) sky
     in Inr ((fst g, snd g),
          (\<lparr>shape0 = shape0 im1, shape1 = shape1 im1, flat = map fst sky\<rparr>,
           \<lparr>shape0 = shape0 im1, shape1 = shape1 im1, flat = map snd sky\<rparr>),
          (\<lparr>shape0 = shape0 im1, shape1 = shape1 im1,
            flat = map (\<lambda>p. to_int cast_ub (rint (fst p))) pix\<rparr>,
           \<lparr>shape0 = shape0 im1, shape1 = shape1 im1,
            flat = map (\<lambda>p. to_int cast_ub (rint (snd p))) pix\<rparr>)))"
proof -
  define g where "g = meshgrid (arange (int (shape1 im1))) (arange (int (shape0 im1)))"
  define sky where "sky = map2 (\<lambda>x y. pix2world w1 (Num (of_int x), Num (of_int y)))
                 (flat (fst g)) (flat (snd g))"
  define pix where "pix = map (world2pix w2) sky"
  let ?ra = "\<lparr>shape0 = shape0 im1, shape1 = shape1 im1, flat = map fst sky\<rparr>"
  let ?dec = "\<lparr>shape0 = shape0 im1, shape1 = shape1 im1, flat = map snd sky\<rparr>"
  let ?fx = "\<lparr>shape0 = shape0 im1, shape1 = shape1 im1, flat = map fst pix\<rparr>"
  let ?fy = "\<lparr>shape0 = shape0 im1, shape1 = shape1 im1, flat = map snd pix\<rparr>"
  have gg: "grid_generator (int (shape0 im1)) (int (shape1 im1)) = Inr (fst g, snd g)"
    by (simp add: grid_generator_def g_def)
  have sh: "shape0 (fst g) = shape0 im1" "shape1 (fst g) = shape1 im1"
    "shape0 (snd g) = shape0 im1" "shape1 (snd g) = shape1 im1"
    by (simp_all add: g_def meshgrid_shape length_arange)
  have pw: "all_pix2world w1 (fst g) (snd g) = Inr (?ra, ?dec)"
    by (simp add: all_pix2world_def elementwise2_def sh amap_def sky_def)
  have "map2 (\<lambda>a d. world2pix w2 (a, d)) (map fst sky) (map snd sky) = pix"
    unfolding pix_def by (rule map2_fst_snd)
  then have wp: "all_world2pix w2 ?ra ?dec = Inr (?fx, ?fy)"
    by (simp add: all_world2pix_def elementwise2_def amap_def)
  have "coordinate_mapper cast_ub w1 w2 im1 =
      Inr ((fst g, snd g), (?ra, ?dec),
        (\<lparr>shape0 = shape0 im1, shape1 = shape1 im1,
          flat = map (\<lambda>p. to_int cast_ub (rint (fst p))) pix\<rparr>,
         \<lparr>shape0 = shape0 im1, shape1 = shape1 im1,
          flat = map (\<lambda>p. to_int cast_ub (rint (snd p))) pix\<rparr>))"
    unfolding coordinate_mapper_def gg and_then_Inr prod.case pw wp
    by (simp add: amap_def o_def)
  then show ?thesis
    by (simp only: Let_def g_def sky_def pix_def)
qed

text \<open>
  C8: the script runs to its end without an exception, and the coordinate arrays, the sky
  coordinates, the new coordinates, the mask and the shifted data all have the rows and
  columns of the first image.
\<close>

theorem shape_invariant:
  "\<exists>st. script cast_ub w1 w2 im1 im2 = Inr st
     \<and> has_shape (xarray st) (shape0 im1) (shape1 im1)
     \<and> has_shape (yarray st) (shape0 im1) (shape1 im1)
     \<and> has_shape (ra_array st) (shape0 im1) (shape1 im1)
     \<and> has_shape (dec_array st) (shape0 im1) (shape1 im1)
     \<and> has_shape (newxarray st) (shape0 im1) (shape1 im1)
     \<and> has_shape (newyarray st) (shape0 im1) (shape1 im1)
     \<and> has_shape (boolean_array st) (shape0 im1) (shape1 im1)
     \<and> has_shape (newdata st) (shape0 im1) (shape1 im1)"
proof -
  define g where "g = meshgrid (arange (int (shape1 im1))) (arange (int (shape0 im1)))"
  define sky where "sky = map2 (\<lambda>x y. pix2world w1 (Num (of_int x), Num (of_int y)))
                 (flat (fst g)) (flat (snd g))"
  define pix where "pix = map (world2pix w2) sky"
  define ra where "ra = \<lparr>shape0 = shape0 im1, shape1 = shape1 im1, flat = map fst sky\<rparr>"
  define dec where "dec = \<lparr>shape0 = shape0 im1, shape1 = shape1 im1, flat = map snd sky\<rparr>"
  define newx where "newx = \<lparr>shape0 = shape0 im1, shape1 = shape1 im1,
            flat = map (\<lambda>p. to_int cast_ub (rint (fst p))) pix\<rparr>"
  define newy where "newy = \<lparr>shape0 = shape0 im1, shape1 = shape1 im1,
            flat = map (\<lambda>p. to_int cast_ub (rint (snd p))) pix\<rparr>"
  have cm: "coordinate_mapper cast_ub w1 w2 im1 = Inr ((fst g, snd g), (ra, dec), (newx, newy))"
    by (simp add: coordinate_mapper_eq Let_def g_def sky_def pix_def ra_def dec_def newx_def
        newy_def)
  have lsky: "length sky = shape0 im1 * shape1 im1"
    by (simp add: sky_def g_def meshgrid_shape length_arange)
  have sg: "has_shape (fst g) (shape0 im1) (shape1 im1)"
    "has_shape (snd g) (shape0 im1) (shape1 im1)"
    by (simp_all add: has_shape_def g_def meshgrid_shape length_arange)
  have ss: "has_shape ra (shape0 im1) (shape1 im1)" "has_shape dec (shape0 im1) (shape1 im1)"
    by (simp_all add: has_shape_def ra_def dec_def lsky)
  have sn: "has_shape newx (shape0 im1) (shape1 im1)"
    "has_shape newy (shape0 im1) (shape1 im1)"
    by (simp_all add: has_shape_def newx_def newy_def pix_def lsky)
  from sn have len: "length (flat newx) = shape0 im1 * shape1 im1"
    "length (flat newy) = shape0 im1 * shape1 im1"
    by (simp_all add: has_shape_def)
  obtain m out where rs: "resample im1 im2 newx newy = Inr (m, out)"
    and sm: "has_shape m (shape0 im1) (shape1 im1)"
    and so: "has_shape out (shape0 im1) (shape1 im1)"
    using len by (simp add: resample_eq [OF sn] has_shape_def)
  have "script cast_ub w1 w2 im1 im2 =
      Inr \<lparr>xarray = fst g, yarray = snd g, ra_array = ra, dec_array = dec,
           newxarray = newx, newyarray = newy, boolean_array = m, newdata = out\<rparr>"
    by (simp add: script_def cm rs case_prod_beta)
  with sg ss sn sm so show ?thesis by simp
qed





section \<open>Coordinates that are not finite\<close>







text \<open>The same run on a machine that converts them to the most negative integer.\<close>

lemma nonfinite_cast_min_example:
  "script cast_min ex_wcs ex_nan_wcs ex_im1 ex_im2 =
     Inr \<lparr>xarray = \<lparr>shape0 = 2, shape1 = 2, flat = [0, 1, 0, 1]\<rparr>,
          yarray = \<lparr>shape0 = 2, shape1 = 2, flat = [0, 0, 1, 1]\<rparr>,
          ra_array = \<lparr>shape0 = 2, shape1 = 2, flat = [Num 0, Num 1, Num 0, Num 1]\<rparr>,
          dec_array = \<lparr>shape0 = 2, shape1 = 2, flat = [Num 0, Num 0, Num 1, Num 1]\<rparr>,
          newxarray = \<lparr>shape0 = 2, shape1 = 2,
                       flat = [- (2 ^ 63), - (2 ^ 63), - (2 ^ 63), - (2 ^ 63)]\<rparr>,
          newyarray = \<lparr>shape0 = 2, shape1 = 2,
                       flat = [- (2 ^ 63), - (2 ^ 63), - (2 ^ 63), - (2 ^ 63)]\<rparr>,
          boolean_array = \<lparr>shape0 = 2, shape1 = 2, flat = [False, False, False, False]\<rparr>,
          newdata = \<lparr>shape0 = 2, shape1 = 2, flat = [NaN, NaN, NaN, NaN],
                     dtype = Float64\<rparr>\<rparr>"
  by code_simp

end
